theory Spec2Isabelle
  imports Main "HOL-Library.Word"
begin

section \<open>swayimg: mode handlers (src/mode.c)\<close>

text \<open>
  A shallow embedding of \<^verbatim>\<open>src/mode.c\<close>: \<^verbatim>\<open>execute_cmd\<close>,
  \<^verbatim>\<open>collect_paths\<close> and \<^verbatim>\<open>mode_handle\<close>. Memory that the C code
  reads through a \<^verbatim>\<open>char*\<close> is a list of bytes (\<^typ>\<open>string\<close>); a pointer that
  may be \<^verbatim>\<open>NULL\<close> is an \<^typ>\<open>'a option\<close>; the collaborators declared in headers
  that are not part of the unit (shellcmd.h, info.h, application.h, ui.h, imglist.h)
  are parameters or effects on a record of the observable state.
\<close>

subsection \<open>C strings and byte buffers\<close>

definition NUL :: char where
  "NUL = CHR 0x00"

text \<open>The characters a C reader (\<^verbatim>\<open>strlen\<close>, \<^verbatim>\<open>%s\<close>) sees at a pointer: the bytes
  before the first zero byte.\<close>

definition cstr :: "string \<Rightarrow> string" where
  "cstr mem = takeWhile (\<lambda>c. c \<noteq> NUL) mem"

definition strlen :: "string \<Rightarrow> nat" where
  "strlen mem = length (cstr mem)"

text \<open>The memory of a C string (literal or \<^verbatim>\<open>const char*\<close> value) with text \<open>s\<close>.\<close>

definition c_str :: "string \<Rightarrow> string" where
  "c_str s = s @ [NUL]"

text \<open>\<^verbatim>\<open>memcpy(dst + off, src, n)\<close> on a destination buffer \<open>dst\<close>: bytes
  \<open>off ..< off + n\<close> are replaced. The one call below stays within the buffer.\<close>

definition memcpy :: "string \<Rightarrow> nat \<Rightarrow> string \<Rightarrow> nat \<Rightarrow> string" where
  "memcpy dst off src n = take off dst @ take n src @ drop (off + n) dst"

text \<open>Modelled from the spec: \<^verbatim>\<open>str_dup\<close> and \<^verbatim>\<open>str_append\<close> are string helpers of
  the repository that are not in the unit. The spec's status messages are a fixed prefix
  followed by the command string or by a captured text, which with the calls in
  \<^verbatim>\<open>execute_cmd\<close> gives: \<^verbatim>\<open>str_dup(src, &dst)\<close> stores a fresh copy of the C string
  \<open>src\<close>; \<^verbatim>\<open>str_append(src, len, &dst)\<close> appends \<open>len\<close> bytes of \<open>src\<close> (the whole
  C string when \<open>len\<close> is 0) to the C string at \<open>dst\<close>, which may still be
  \<^verbatim>\<open>NULL\<close>, and terminates the result. Both are taken to succeed in allocating.\<close>

definition str_dup :: "string \<Rightarrow> string" where
  "str_dup src = cstr src @ [NUL]"

definition str_append :: "string \<Rightarrow> nat \<Rightarrow> string option \<Rightarrow> string" where
  "str_append src len dst =
     (let src_len = (if len = 0 then strlen src else len);
          old = (case dst of None \<Rightarrow> [] | Some d \<Rightarrow> cstr d)
      in old @ take src_len src @ [NUL])"

subsection \<open>Trimming of the status text (execute\_cmd, lines 70--74)\<close>

definition max_status :: nat where
  "max_status = 60"

definition ellipsis :: string where
  "ellipsis = c_str ''...''"

text \<open>\<^verbatim>\<open>sizeof(ellipsis)\<close> counts the terminator: 4 bytes.\<close>

definition sizeof_ellipsis :: nat where
  "sizeof_ellipsis = length ellipsis"

definition trim_status :: "string \<Rightarrow> string" where
  "trim_status msg =
     (if strlen msg > max_status
      then memcpy msg (max_status - sizeof_ellipsis) ellipsis sizeof_ellipsis
      else msg)"

subsection \<open>Formatting of the C library\<close>

text \<open>\<^verbatim>\<open>%d\<close>: the decimal digits of an \<^verbatim>\<open>int\<close>, most significant first, with a
  minus sign for a negative value.\<close>

definition digit_char :: "nat \<Rightarrow> char" where
  "digit_char d = ''0123456789'' ! d"

fun digits :: "nat \<Rightarrow> string" where
  "digits n = (if n < 10 then [digit_char n] else digits (n div 10) @ [digit_char (n mod 10)])"

declare digits.simps [simp del]

definition show_int :: "int \<Rightarrow> string" where
  "show_int i = (if i < 0 then CHR ''-'' # digits (nat (- i)) else digits (nat i))"

text \<open>Reading a decimal numeral back, to say what \<^const>\<open>show_int\<close> denotes.\<close>

definition digit_val :: "char \<Rightarrow> nat" where
  "digit_val c = of_char c - 48"

definition dec_val :: "string \<Rightarrow> nat" where
  "dec_val s = foldl (\<lambda>acc c. 10 * acc + digit_val c) 0 s"

definition int_val :: "string \<Rightarrow> int" where
  "int_val s = (case s of [] \<Rightarrow> 0
                | c # cs \<Rightarrow> if c = CHR ''-'' then - int (dec_val cs) else int (dec_val s))"

text \<open>\<^verbatim>\<open>snprintf(buf, n, ...)\<close>: at most \<open>n - 1\<close> characters of the formatted text
  are stored, then the terminator.\<close>

definition snprintf :: "nat \<Rightarrow> string \<Rightarrow> string" where
  "snprintf n text = take (n - 1) text @ [NUL]"

text \<open>The conversion \<^verbatim>\<open>(int)out->size\<close> of a \<^verbatim>\<open>size_t\<close> to a 32-bit \<^verbatim>\<open>int\<close>
  keeps the low 32 bits, read as two's complement.\<close>

definition int_of_size :: "nat \<Rightarrow> int" where
  "int_of_size n = sint (word_of_nat n :: 32 word)"

text \<open>\<^verbatim>\<open>%.*s\<close> with precision \<open>p\<close>: the characters of the argument up to the first
  zero byte, and no more than \<open>p\<close> of them; a negative precision counts as omitted.\<close>

definition printf_prec_s :: "int \<Rightarrow> string \<Rightarrow> string" where
  "printf_prec_s p mem = (if p < 0 then cstr mem else cstr (take (nat p) mem))"

subsection \<open>Data model\<close>

text \<open>\<^verbatim>\<open>struct image\<close>: the two fields the unit reads. The image list is the sequence
  of images that \<^verbatim>\<open>imglist_first()\<close> and \<^verbatim>\<open>imglist_next(img, false)\<close> enumerate.\<close>

record image =
  source :: string
  marked :: bool

text \<open>The enumerators of \<^verbatim>\<open>action->type\<close> that \<^verbatim>\<open>mode_handle\<close> names; every other
  enumerator (the mode-specific actions) is \<open>action_other\<close> with its number.\<close>

datatype action_type =
    action_info | action_status | action_fullscreen | action_mode | action_exec
  | action_mark | action_exec_marked | action_help | action_exit
  | action_other nat

record action =
  type :: action_type
  params :: string

text \<open>\<^verbatim>\<open>struct mode\<close>: the three function pointers used here. An image pointer is the
  index of the image in the image list; \<open>get_current\<close> is taken to return an index of the
  list, as the C code dereferences its result unchecked.\<close>

record mode =
  get_current :: nat
  get_keybinds :: "string list"
  handle_action :: "action \<Rightarrow> bool"

text \<open>\<^verbatim>\<open>struct array\<close> (captured output): the bytes \<open>data\<close>, whose number is \<open>size\<close>.\<close>

type_synonym array = string

definition arr_size :: "array \<Rightarrow> nat" where
  "arr_size a = length a"

text \<open>The collaborators whose results the unit branches on, as parameters:
  \<^item> \<open>shellcmd_expr expr paths\<close>: the command string, or \<^verbatim>\<open>NULL\<close>;
  \<^item> \<open>shellcmd_exec cmd\<close>: the return code with the captured \<open>out\<close> and \<open>err\<close> arrays
    (\<^verbatim>\<open>NULL\<close> when nothing was captured);
  \<^item> \<open>SHELLCMD_TIMEOUT\<close>: the macro of shellcmd.h;
  \<^item> \<open>strerror\<close>: the C library's description of an error number;
  \<^item> \<open>malloc_ok n\<close>: whether \<^verbatim>\<open>malloc(n)\<close> returns memory, and \<open>junk\<close>, the content of
    a cell of fresh memory;
  \<^item> \<open>action_typename\<close>: the name of an action's type.\<close>

record env =
  shellcmd_expr :: "string \<Rightarrow> string option list \<Rightarrow> string option"
  shellcmd_exec :: "string \<Rightarrow> 32 word \<times> array option \<times> array option"
  SHELLCMD_TIMEOUT :: "32 word"
  strerror :: "32 word \<Rightarrow> string"
  malloc_ok :: "nat \<Rightarrow> bool"
  junk :: "string option"
  action_typename :: "action \<Rightarrow> string"

text \<open>What the unit does to its collaborators, as a record of the observable state:
  the image list, the status line, the number of redraw requests made by the unit
  (calls of \<^verbatim>\<open>app_redraw\<close>), the info panel, the
  fullscreen flag, the application mode, the mark indicator, the help overlay
  (\<open>None\<close> when hidden), the exit request, the bytes written to the process's own
  standard output and standard error, and the commands handed to \<^verbatim>\<open>shellcmd_exec\<close>.\<close>

record world =
  images :: "image list"
  status :: string
  redraws :: nat
  info_mode :: string
  fullscreen :: bool
  app_mode :: string
  mark_shown :: bool
  help_shown :: "string list option"
  exit_code :: "int option"
  out_stream :: string
  err_stream :: string
  spawned :: "string list"

subsection \<open>Collaborators\<close>

text \<open>Modelled from the spec: \<^verbatim>\<open>info_update(info_status, fmt, ...)\<close> of info.h is not in
  the unit; it publishes the formatted text as the status line (the "status-line
  publish" of the external interfaces, which set-status uses to publish its
  parameter verbatim).\<close>

definition info_update :: "string \<Rightarrow> world \<Rightarrow> world" where
  "info_update text w = w\<lparr>status := text\<rparr>"

text \<open>Modelled from the spec: \<^verbatim>\<open>app_redraw()\<close> of application.h is not in the unit; it
  is a redraw request, counted here.\<close>

definition app_redraw :: "world \<Rightarrow> world" where
  "app_redraw w = w\<lparr>redraws := redraws w + 1\<rparr>"

text \<open>Modelled from the spec: \<^verbatim>\<open>info_switch\<close> of info.h is not in the unit; it switches
  the displayed info panel to the one named.\<close>

definition info_switch :: "string \<Rightarrow> world \<Rightarrow> world" where
  "info_switch name w = w\<lparr>info_mode := name\<rparr>"

text \<open>Modelled from the spec: \<^verbatim>\<open>ui_toggle_fullscreen\<close> of ui.h is not in the unit; it
  toggles the fullscreen flag.\<close>

definition ui_toggle_fullscreen :: "world \<Rightarrow> world" where
  "ui_toggle_fullscreen w = w\<lparr>fullscreen := \<not> fullscreen w\<rparr>"

text \<open>Modelled from the spec: \<^verbatim>\<open>app_switch_mode\<close> of application.h is not in the unit;
  it requests the switch to the mode named.\<close>

definition app_switch_mode :: "string \<Rightarrow> world \<Rightarrow> world" where
  "app_switch_mode name w = w\<lparr>app_mode := name\<rparr>"

text \<open>Modelled from the spec: \<^verbatim>\<open>app_exit\<close> of application.h is not in the unit; it
  asks the application to terminate with the code given.\<close>

definition app_exit :: "int \<Rightarrow> world \<Rightarrow> world" where
  "app_exit rc w = w\<lparr>exit_code := Some rc\<rparr>"

text \<open>Modelled from the spec: \<^verbatim>\<open>image_toggle_marked\<close> of imglist.h is not in the unit;
  it toggles the \<open>marked\<close> flag of the image and returns the new value.\<close>

definition image_toggle_marked :: "nat \<Rightarrow> world \<Rightarrow> bool \<times> world" where
  "image_toggle_marked i w =
     (let img = images w ! i; m = \<not> marked img
      in (m, w\<lparr>images := (images w)[i := img\<lparr>marked := m\<rparr>]\<rparr>))"

text \<open>Modelled from the spec: \<^verbatim>\<open>info_update_mark\<close> of info.h is not in the unit; it
  updates the mark indicator.\<close>

definition info_update_mark :: "bool \<Rightarrow> world \<Rightarrow> world" where
  "info_update_mark m w = w\<lparr>mark_shown := m\<rparr>"

text \<open>Modelled from the spec: \<^verbatim>\<open>help_visible\<close>, \<^verbatim>\<open>help_hide\<close> and \<^verbatim>\<open>help_show\<close> are
  not in the unit; they query, hide and show (with the key bindings given) the help
  overlay.\<close>

definition help_visible :: "world \<Rightarrow> bool" where
  "help_visible w = (help_shown w \<noteq> None)"

definition help_hide :: "world \<Rightarrow> world" where
  "help_hide w = w\<lparr>help_shown := None\<rparr>"

definition help_show :: "string list \<Rightarrow> world \<Rightarrow> world" where
  "help_show keybinds w = w\<lparr>help_shown := Some keybinds\<rparr>"

text \<open>\<^verbatim>\<open>fprintf(stdout, "%.*s", (int)a->size, a->data)\<close> and the same on
  \<^verbatim>\<open>stderr\<close>.\<close>

definition fprintf_stdout :: "array \<Rightarrow> world \<Rightarrow> world" where
  "fprintf_stdout a w =
     w\<lparr>out_stream := out_stream w @ printf_prec_s (int_of_size (arr_size a)) a\<rparr>"

definition fprintf_stderr :: "array \<Rightarrow> world \<Rightarrow> world" where
  "fprintf_stderr a w =
     w\<lparr>err_stream := err_stream w @ printf_prec_s (int_of_size (arr_size a)) a\<rparr>"

subsection \<open>execute\_cmd\<close>

text \<open>Lines 59--60: \<^verbatim>\<open>char desc[256]; snprintf(desc, sizeof(desc), "Error %d: ", rc)\<close>.\<close>

definition error_desc :: "32 word \<Rightarrow> string" where
  "error_desc rc = snprintf 256 (''Error '' @ show_int (sint rc) @ '': '')"

text \<open>Lines 47--69: the status text as built in \<^verbatim>\<open>msg\<close>, before trimming.\<close>

definition build_msg ::
  "env \<Rightarrow> string \<Rightarrow> 32 word \<Rightarrow> array option \<Rightarrow> array option \<Rightarrow> string" where
  "build_msg env cmd rc out err =
     (if rc = 0 then
        (case out of
           Some a \<Rightarrow> str_append a (arr_size a) None
         | None \<Rightarrow> str_append cmd 0 (Some (str_dup (c_str ''Success: ''))))
      else if rc = SHELLCMD_TIMEOUT env then
        str_append cmd 0 (Some (str_dup (c_str ''Child process timed out: '')))
      else
        (let desc = error_desc rc;
             msg = str_dup desc
         in case err of
              Some e \<Rightarrow> str_append e (arr_size e) (Some msg)
            | None \<Rightarrow>
               (case out of
                  Some a \<Rightarrow> str_append a (arr_size a) (Some msg)
                | None \<Rightarrow> str_append (strerror env rc) 0 (Some msg))))"

definition execute_cmd :: "env \<Rightarrow> string \<Rightarrow> string option list \<Rightarrow> world \<Rightarrow> world" where
  "execute_cmd env expr paths w =
     (case shellcmd_expr env expr paths of
        None \<Rightarrow> app_redraw (info_update ''Error: no command to execute'' w)
      | Some cmd \<Rightarrow>
         (case shellcmd_exec env cmd of
            (rc, out, err) \<Rightarrow>
              (let w1 = w\<lparr>spawned := spawned w @ [cmd]\<rparr>;
                   w2 = (case out of Some a \<Rightarrow> fprintf_stdout a w1 | None \<Rightarrow> w1);
                   w3 = (case err of Some e \<Rightarrow> fprintf_stderr e w2 | None \<Rightarrow> w2);
                   msg = trim_status (build_msg env cmd rc out err)
               in app_redraw (info_update (cstr msg) w3))))"

subsection \<open>collect\_paths\<close>

text \<open>The first loop (lines 89--93), from the image the iteration has reached.\<close>

fun count_marked :: "image list \<Rightarrow> nat \<Rightarrow> nat" where
  "count_marked [] paths_num = paths_num"
| "count_marked (img # rest) paths_num =
     count_marked rest (if marked img then paths_num + 1 else paths_num)"

text \<open>The second loop (lines 104--109): \<open>next_path\<close> is the index of the next cell of
  \<open>paths\<close> to be written.\<close>

fun fill_paths :: "image list \<Rightarrow> nat \<Rightarrow> string option list \<Rightarrow> nat \<times> string option list" where
  "fill_paths [] next_path paths = (next_path, paths)"
| "fill_paths (img # rest) next_path paths =
     (if marked img
      then fill_paths rest (next_path + 1) (paths[next_path := Some (source img)])
      else fill_paths rest next_path paths)"

definition sizeof_ptr :: nat where
  "sizeof_ptr = 8"

definition collect_paths :: "env \<Rightarrow> world \<Rightarrow> string option list option \<times> world" where
  "collect_paths env w =
     (let paths_num = count_marked (images w) 0
      in if paths_num = 0 then (None, w)
         else if \<not> malloc_ok env ((paths_num + 1) * sizeof_ptr) then (None, w)
         else (case fill_paths (images w) 0 (replicate (paths_num + 1) (junk env)) of
                 (next_path, paths) \<Rightarrow> (Some (paths[next_path := None]), w)))"

text \<open>The paths a reader of a \<^verbatim>\<open>NULL\<close>-terminated array sees.\<close>

definition path_set :: "string option list \<Rightarrow> string list" where
  "path_set paths = map the (takeWhile (\<lambda>p. p \<noteq> None) paths)"

subsection \<open>mode\_handle\<close>

definition mode_handle :: "env \<Rightarrow> mode \<Rightarrow> action \<Rightarrow> world \<Rightarrow> world" where
  "mode_handle env mode act w =
     (case type act of
        action_info \<Rightarrow> app_redraw (info_switch (params act) w)
      | action_status \<Rightarrow> app_redraw (info_update (cstr (params act)) w)
      | action_fullscreen \<Rightarrow> ui_toggle_fullscreen w
      | action_mode \<Rightarrow> app_switch_mode (params act) w
      | action_exec \<Rightarrow>
          execute_cmd env (params act) [Some (source (images w ! get_current mode)), None] w
      | action_mark \<Rightarrow>
          (case image_toggle_marked (get_current mode) w of
             (m, w1) \<Rightarrow> app_redraw (info_update_mark m w1))
      | action_exec_marked \<Rightarrow>
          (case collect_paths env w of
             (None, w1) \<Rightarrow> w1
           | (Some paths, w1) \<Rightarrow> execute_cmd env (params act) paths w1)
      | action_help \<Rightarrow>
          app_redraw (if help_visible w then help_hide w else help_show (get_keybinds mode) w)
      | action_exit \<Rightarrow>
          (if help_visible w then app_redraw (help_hide w) else app_exit 0 w)
      | action_other n \<Rightarrow>
          (if \<not> handle_action mode act
           then app_redraw
                  (info_update (''Unhandled action: '' @ cstr (action_typename env act)) w)
           else w))"

subsection \<open>Captured streams and sample collaborators\<close>



text \<open>Concrete collaborators, on which the statements below are evaluated: a templating
  primitive that yields the expression itself unless it is empty, an execution primitive
  with a fixed outcome, and an allocator that succeeds or fails as told.\<close>

definition sample_env :: "32 word \<times> array option \<times> array option \<Rightarrow> bool \<Rightarrow> env" where
  "sample_env outcome mem =
     \<lparr>shellcmd_expr = (\<lambda>expr paths. if cstr expr = [] then None else Some expr),
      shellcmd_exec = (\<lambda>cmd. outcome),
      SHELLCMD_TIMEOUT = 256,
      strerror = (\<lambda>rc. c_str ''Operation not permitted''),
      malloc_ok = (\<lambda>n. mem),
      junk = Some ''junk'',
      action_typename = (\<lambda>a. c_str ''zoom'')\<rparr>"

definition sample_images :: "image list" where
  "sample_images =
     [\<lparr>source = c_str ''/tmp/a.png'', marked = True\<rparr>,
      \<lparr>source = c_str ''/tmp/b.png'', marked = False\<rparr>,
      \<lparr>source = c_str ''/tmp/c.png'', marked = True\<rparr>]"

definition sample_world :: "image list \<Rightarrow> world" where
  "sample_world imgs =
     \<lparr>images = imgs, status = ''ready'', redraws = 0, info_mode = ''off'',
      fullscreen = False, app_mode = ''viewer'', mark_shown = False, help_shown = None,
      exit_code = None, out_stream = [], err_stream = [], spawned = []\<rparr>"

definition sample_mode :: mode where
  "sample_mode = \<lparr>get_current = 0, get_keybinds = [''q: exit''], handle_action = (\<lambda>a. False)\<rparr>"

definition long_text :: string where
  "long_text = replicate 61 (CHR ''a'')"

definition unmarked_images :: "image list" where
  "unmarked_images =
     [\<lparr>source = c_str ''/tmp/a.png'', marked = False\<rparr>,
      \<lparr>source = c_str ''/tmp/b.png'', marked = False\<rparr>]"

definition exec_marked_action :: action where
  "exec_marked_action = \<lparr>type = action_exec_marked, params = c_str ''rm''\<rparr>"

definition failed_run :: "32 word \<times> array option \<times> array option" where
  "failed_run = (1, Some ''partial'', Some ''boom'')"

definition silent_failure :: "32 word \<times> array option \<times> array option" where
  "silent_failure = (1, None, None)"

definition timed_out_run :: "32 word \<times> array option \<times> array option" where
  "timed_out_run = (256, None, None)"

definition long_status_action :: action where
  "long_status_action = \<lparr>type = action_status, params = c_str long_text\<rparr>"

definition zoom_action :: action where
  "zoom_action = \<lparr>type = action_other 12, params = c_str ''in''\<rparr>"

definition help_action :: action where
  "help_action = \<lparr>type = action_help, params = c_str []\<rparr>"


definition zero_first_output :: array where
  "zero_first_output = [NUL, CHR ''x'']"

definition zero_stderr_run :: "32 word \<times> array option \<times> array option" where
  "zero_stderr_run = (1, Some ''partial'', Some zero_first_output)"

subsection \<open>Facts about C strings\<close>

lemma cstr_append_NUL: "NUL \<notin> set s \<Longrightarrow> cstr (s @ NUL # rest) = s"
proof -
  assume "NUL \<notin> set s"
  then have "takeWhile (\<lambda>c. c \<noteq> NUL) (s @ NUL # rest) = s @ takeWhile (\<lambda>c. c \<noteq> NUL) (NUL # rest)"
    by (intro takeWhile_append2) auto
  then show ?thesis
    by (simp add: cstr_def)
qed

lemma cstr_no_NUL: "NUL \<notin> set (cstr mem)"
  using set_takeWhileD [of NUL "\<lambda>c. c \<noteq> NUL" mem] by (auto simp: cstr_def)

lemma cstr_prefix: "cstr mem = take (strlen mem) mem"
  unfolding strlen_def cstr_def by (rule takeWhile_eq_take)

lemma strlen_le: "strlen mem \<le> length mem"
  by (simp add: strlen_def cstr_def length_takeWhile_le)

lemma take_cstr: "n \<le> strlen mem \<Longrightarrow> take n mem = take n (cstr mem)"
  by (simp add: cstr_prefix min_def)

lemma trim_status_long_cstr:
  assumes "strlen msg > 60"
  shows "cstr (trim_status msg) = take 56 (cstr msg) @ ''...''"
proof -
  have len: "60 < length msg"
    using assms strlen_le [of msg] by simp
  have pre: "take 56 msg = take 56 (cstr msg)"
    using assms by (simp add: take_cstr)
  have "NUL \<notin> set (take 56 (cstr msg))"
    using cstr_no_NUL [of msg] by (auto dest: in_set_takeD)
  moreover have "NUL \<notin> set ''...''"
    by (simp add: NUL_def)
  ultimately have nn: "NUL \<notin> set (take 56 (cstr msg) @ ''...'')"
    by simp
  have "trim_status msg = (take 56 (cstr msg) @ ''...'') @ NUL # drop 60 msg"
    using assms pre
    by (simp add: trim_status_def max_status_def sizeof_ellipsis_def ellipsis_def
        c_str_def memcpy_def)
  then show ?thesis
    using cstr_append_NUL [OF nn] by simp
qed

text \<open>The \<^verbatim>\<open>memcpy\<close> of the trimming writes inside the buffer and keeps its size.\<close>

lemma trim_status_in_bounds:
  "max_status < strlen msg \<Longrightarrow>
   (max_status - sizeof_ellipsis) + sizeof_ellipsis \<le> length msg"
  using strlen_le [of msg] by (simp add: max_status_def sizeof_ellipsis_def ellipsis_def c_str_def)

lemma length_trim_status: "length (trim_status msg) = length msg"
proof (cases "max_status < strlen msg")
  case True
  then have "60 < length msg"
    using strlen_le [of msg] by (simp add: max_status_def)
  with True show ?thesis
    by (simp add: trim_status_def memcpy_def max_status_def sizeof_ellipsis_def ellipsis_def
        c_str_def)
next
  case False
  then show ?thesis
    by (simp add: trim_status_def)
qed

lemma cstr_snoc_NUL: "cstr (mem @ [NUL]) = cstr mem"
  by (induction mem) (simp_all add: cstr_def)

lemma cstr_NUL_free_append: "NUL \<notin> set a \<Longrightarrow> cstr (a @ b) = a @ cstr b"
  unfolding cstr_def by (rule takeWhile_append2) blast

lemma cstr_idem: "cstr (cstr mem) = cstr mem"
  by (simp add: cstr_def)

lemma cstr_NUL_free: "NUL \<notin> set a \<Longrightarrow> cstr a = a"
  unfolding cstr_def takeWhile_eq_all_conv by blast

lemma cstr_str_dup: "cstr (str_dup src) = cstr src"
  by (simp add: str_dup_def cstr_snoc_NUL cstr_idem)

lemma cstr_c_str_any: "cstr (c_str s) = cstr s"
  by (simp add: c_str_def cstr_snoc_NUL)

lemma cstr_str_append:
  "cstr (str_append src len dst) =
     (case dst of None \<Rightarrow> [] | Some d \<Rightarrow> cstr d)
       @ cstr (take (if len = 0 then strlen src else len) src)"
proof -
  have "NUL \<notin> set (case dst of None \<Rightarrow> [] | Some d \<Rightarrow> cstr d)"
    using cstr_no_NUL by (cases dst) auto
  then show ?thesis
    unfolding str_append_def Let_def
    by (simp add: cstr_NUL_free_append cstr_snoc_NUL)
qed

lemma cstr_str_append_cstring:
  "cstr (str_append src 0 dst) = (case dst of None \<Rightarrow> [] | Some d \<Rightarrow> cstr d) @ cstr src"
  by (simp add: cstr_str_append cstr_prefix [symmetric] cstr_idem)

lemma cstr_str_append_array:
  "cstr (str_append a (arr_size a) dst) = (case dst of None \<Rightarrow> [] | Some d \<Rightarrow> cstr d) @ cstr a"
  by (cases "a = []") (simp_all add: cstr_str_append arr_size_def)

lemma cstr_trim_status:
  "cstr (trim_status msg) =
     (if 60 < strlen msg then take 56 (cstr msg) @ ''...'' else cstr msg)"
  using trim_status_long_cstr [of msg] by (simp add: trim_status_def max_status_def)

subsection \<open>Facts about the formatting\<close>

lemma digit_val_digit_char: "d < 10 \<Longrightarrow> digit_val (digit_char d) = d"
proof -
  assume "d < 10"
  then have "d \<in> {0,1,2,3,4,5,6,7,8,9}" by auto
  then show ?thesis
    by (auto simp: digit_val_def digit_char_def)
qed

lemma dec_val_snoc: "dec_val (s @ [c]) = 10 * dec_val s + digit_val c"
  by (simp add: dec_val_def)

lemma dec_val_digits: "dec_val (digits n) = n"
proof (induction n rule: digits.induct)
  case (1 n)
  show ?case
  proof (cases "n < 10")
    case True
    then show ?thesis
      by (simp add: digits.simps [of n] dec_val_def digit_val_digit_char)
  next
    case False
    with 1 show ?thesis
      by (simp add: digits.simps [of n] dec_val_snoc digit_val_digit_char)
  qed
qed

lemma digit_char_in: "d < 10 \<Longrightarrow> digit_char d \<in> set ''0123456789''"
proof -
  assume "d < 10"
  then have "d \<in> {0,1,2,3,4,5,6,7,8,9}" by auto
  then show ?thesis
    by (auto simp: digit_char_def)
qed

lemma digit_char_zero: "d < 10 \<Longrightarrow> digit_char d = CHR ''0'' \<Longrightarrow> d = 0"
proof -
  assume "d < 10" and z: "digit_char d = CHR ''0''"
  then have "d \<in> {0,1,2,3,4,5,6,7,8,9}" by auto
  with z show ?thesis
    by (auto simp: digit_char_def)
qed

lemma digits_set: "set (digits n) \<subseteq> set ''0123456789''"
proof (induction n rule: digits.induct)
  case (1 n)
  show ?case
  proof (cases "n < 10")
    case True
    then show ?thesis
      using digit_char_in [of n] by (simp add: digits.simps [of n])
  next
    case False
    with 1 show ?thesis
      using digit_char_in [of "n mod 10"] by (simp add: digits.simps [of n])
  qed
qed

lemma digits_nonempty: "digits n \<noteq> []"
  by (simp add: digits.simps [of n])

lemma hd_digits: "0 < n \<Longrightarrow> hd (digits n) \<noteq> CHR ''0''"
proof (induction n rule: digits.induct)
  case (1 n)
  show ?case
  proof (cases "n < 10")
    case True
    with "1.prems" show ?thesis
      using digit_char_zero [of n] by (auto simp: digits.simps [of n])
  next
    case False
    then have "0 < n div 10" by simp
    with 1 False show ?thesis
      by (simp add: digits.simps [of n] digits_nonempty)
  qed
qed

lemma length_digits: "n < 10 ^ k \<Longrightarrow> 0 < k \<Longrightarrow> length (digits n) \<le> k"
proof (induction n arbitrary: k rule: digits.induct)
  case (1 n)
  show ?case
  proof (cases "n < 10")
    case True
    with "1.prems" show ?thesis
      by (simp add: digits.simps [of n])
  next
    case False
    have "k \<noteq> 1"
      using "1.prems" False by auto
    with "1.prems" obtain j where j: "k = Suc j" "0 < j"
      by (cases k) auto
    with "1.prems" have "n div 10 < 10 ^ j"
      by (simp add: less_mult_imp_div_less mult.commute)
    from "1.IH" [OF False this \<open>0 < j\<close>] False j show ?thesis
      by (simp add: digits.simps [of n])
  qed
qed

lemma minus_notin_digits: "CHR ''-'' \<notin> set (digits n)"
  using digits_set [of n] by auto

lemma NUL_notin_digits: "NUL \<notin> set (digits n)"
  using digits_set [of n] by (auto simp: NUL_def)

lemma int_val_show_int: "int_val (show_int i) = i"
proof (cases "i < 0")
  case True
  then show ?thesis
    by (simp add: show_int_def int_val_def dec_val_digits)
next
  case False
  obtain c cs where d: "digits (nat i) = c # cs"
    using digits_nonempty [of "nat i"] by (cases "digits (nat i)") auto
  have "c \<noteq> CHR ''-''"
    using minus_notin_digits [of "nat i"] d by auto
  with False d show ?thesis
    using dec_val_digits [of "nat i"] by (simp add: show_int_def int_val_def)
qed

lemma NUL_notin_show_int: "NUL \<notin> set (show_int i)"
  using NUL_notin_digits by (auto simp: show_int_def NUL_def)

lemma length_show_int32: "length (show_int (sint (rc :: 32 word))) \<le> 11"
proof -
  have lo: "- (2 ^ 31) \<le> sint rc" and hi: "sint rc < 2 ^ 31"
    using sint_ge [of rc] sint_lt [of rc] by simp_all
  have "nat \<bar>sint rc\<bar> < 10 ^ 10"
    using lo hi by simp
  then have "length (digits (nat \<bar>sint rc\<bar>)) \<le> 10"
    by (rule length_digits) simp
  then show ?thesis
    by (auto simp: show_int_def abs_if)
qed



lemma cstr_error_desc:
  "cstr (error_desc rc) = ''Error '' @ show_int (sint rc) @ '': ''"
proof -
  let ?t = "''Error '' @ show_int (sint rc) @ '': ''"
  have "length ?t \<le> 255"
    using length_show_int32 [of rc] by simp
  then have "error_desc rc = ?t @ [NUL]"
    by (simp add: error_desc_def snprintf_def)
  then have "cstr (error_desc rc) = cstr ?t"
    by (simp only: cstr_snoc_NUL)
  moreover have "NUL \<notin> set ?t"
    using NUL_notin_show_int [of "sint rc"] by (simp add: NUL_def)
  then have "cstr ?t = ?t"
    by (rule cstr_NUL_free)
  ultimately show ?thesis
    by (rule trans)
qed

subsection \<open>Facts about execute\_cmd\<close>

lemma cstr_build_msg:
  "cstr (build_msg env cmd rc out err) =
     (if rc = 0 then (case out of Some a \<Rightarrow> cstr a | None \<Rightarrow> ''Success: '' @ cstr cmd)
      else if rc = SHELLCMD_TIMEOUT env then ''Child process timed out: '' @ cstr cmd
      else ''Error '' @ show_int (sint rc) @ '': '' @
           (case err of
              Some e \<Rightarrow> cstr e
            | None \<Rightarrow> (case out of Some a \<Rightarrow> cstr a | None \<Rightarrow> cstr (strerror env rc))))"
proof -
  have lit: "cstr ''Success: '' = ''Success: ''"
    "cstr ''Child process timed out: '' = ''Child process timed out: ''"
    by (simp_all add: cstr_def NUL_def)
  show ?thesis
    unfolding build_msg_def Let_def
    by (simp add: cstr_str_append_cstring cstr_str_append_array cstr_str_dup cstr_c_str_any
        cstr_error_desc lit split: option.split)
qed

lemma execute_cmd_None:
  "shellcmd_expr env expr paths = None \<Longrightarrow>
   execute_cmd env expr paths w =
     w\<lparr>status := ''Error: no command to execute'', redraws := redraws w + 1\<rparr>"
  by (simp add: execute_cmd_def info_update_def app_redraw_def)

lemma execute_cmd_Some:
  "shellcmd_expr env expr paths = Some cmd \<Longrightarrow> shellcmd_exec env cmd = (rc, out, err) \<Longrightarrow>
   execute_cmd env expr paths w =
     w\<lparr>spawned := spawned w @ [cmd],
       out_stream := out_stream w @
         (case out of Some a \<Rightarrow> printf_prec_s (int_of_size (arr_size a)) a | None \<Rightarrow> []),
       err_stream := err_stream w @
         (case err of Some e \<Rightarrow> printf_prec_s (int_of_size (arr_size e)) e | None \<Rightarrow> []),
       status := cstr (trim_status (build_msg env cmd rc out err)),
       redraws := redraws w + 1\<rparr>"
  by (simp add: execute_cmd_def info_update_def app_redraw_def fprintf_stdout_def
      fprintf_stderr_def Let_def split: option.split)

lemma redraws_execute_cmd: "redraws (execute_cmd env expr paths w) = redraws w + 1"
proof (cases "shellcmd_expr env expr paths")
  case None
  then show ?thesis by (simp add: execute_cmd_None)
next
  case (Some cmd)
  obtain rc out err where "shellcmd_exec env cmd = (rc, out, err)"
    by (cases "shellcmd_exec env cmd") auto
  with Some show ?thesis by (simp add: execute_cmd_Some)
qed

subsection \<open>Facts about collect\_paths\<close>

lemma count_marked_eq: "count_marked imgs n = n + length (filter marked imgs)"
  by (induction imgs arbitrary: n) auto

lemma fill_paths_eq:
  "next_path + length (filter marked imgs) \<le> length paths \<Longrightarrow>
   fill_paths imgs next_path paths =
     (next_path + length (filter marked imgs),
      take next_path paths @ map (\<lambda>img. Some (source img)) (filter marked imgs)
        @ drop (next_path + length (filter marked imgs)) paths)"
proof (induction imgs arbitrary: next_path paths)
  case Nil
  then show ?case by simp
next
  case (Cons img rest)
  show ?case
  proof (cases "marked img")
    case True
    with Cons.prems have lt: "next_path < length paths" by simp
    from True Cons.prems
    have "Suc next_path + length (filter marked rest) \<le> length (paths[next_path := Some (source img)])"
      by simp
    from Cons.IH [OF this] True lt show ?thesis
      by (simp add: take_Suc_conv_app_nth)
  next
    case False
    with Cons show ?thesis by simp
  qed
qed

lemma count_marked_0: "count_marked imgs 0 = length (filter marked imgs)"
  by (simp add: count_marked_eq)

lemma collect_paths_eq:
  "collect_paths env w =
     (if filter marked (images w) = []
         \<or> \<not> malloc_ok env ((length (filter marked (images w)) + 1) * sizeof_ptr)
      then None
      else Some (map (\<lambda>img. Some (source img)) (filter marked (images w)) @ [None]), w)"
proof -
  let ?n = "length (filter marked (images w))"
  let ?srcs = "map (\<lambda>img. Some (source img)) (filter marked (images w))"
  define cells where "cells = replicate (?n + 1) (junk env)"
  have len: "0 + ?n \<le> length cells"
    by (simp add: cells_def)
  have "drop ?n cells = [junk env]"
    unfolding cells_def drop_replicate by simp
  with fill_paths_eq [OF len]
  have fill: "fill_paths (images w) 0 cells = (?n, ?srcs @ [junk env])"
    by simp
  have upd: "(?srcs @ [junk env])[?n := None] = ?srcs @ [None]"
    by (simp add: list_update_append)
  have "collect_paths env w =
      (if ?n = 0 then (None, w)
       else if \<not> malloc_ok env ((?n + 1) * sizeof_ptr) then (None, w)
       else (Some ((?srcs @ [junk env])[?n := None]), w))"
    unfolding collect_paths_def Let_def count_marked_0 cells_def [symmetric] fill
    by simp
  then show ?thesis
    unfolding upd by auto
qed

lemma path_set_terminated:
  "path_set (map (\<lambda>img. Some (source img)) imgs @ [None]) = map source imgs"
  by (induction imgs) (simp_all add: path_set_def)

section \<open>The status text of a command run\<close>

text \<open>C1 (as amended). When \<^verbatim>\<open>execute_cmd\<close> has run a command, the status line is the
  text built in \<^verbatim>\<open>msg\<close> if that text has 60 characters or fewer; a longer text is
  published as its first 56 characters followed by \<open>...\<close>, which is 59 characters:
  \<^verbatim>\<open>sizeof(ellipsis)\<close> is 4, so the three dots are written at offsets 56 to 58 and the
  terminator at offset 59.\<close>

theorem execute_cmd_status_trimmed:
  assumes "shellcmd_expr env expr paths = Some cmd"
    and "shellcmd_exec env cmd = (rc, out, err)"
  shows "status (execute_cmd env expr paths w) =
           (if 60 < length (cstr (build_msg env cmd rc out err))
            then take 56 (cstr (build_msg env cmd rc out err)) @ ''...''
            else cstr (build_msg env cmd rc out err))
         \<and> (60 < length (cstr (build_msg env cmd rc out err))
              \<longrightarrow> length (status (execute_cmd env expr paths w)) = 59)"
  using assms by (simp add: execute_cmd_Some cstr_trim_status strlen_def)

theorem execute_cmd_status_trimmed_witness:
  "shellcmd_expr (sample_env (0, Some long_text, None) True) (c_str ''ls'') [None]
      = Some (c_str ''ls'')
   \<and> shellcmd_exec (sample_env (0, Some long_text, None) True) (c_str ''ls'')
      = (0, Some long_text, None)
   \<and> 60 < length (cstr (build_msg (sample_env (0, Some long_text, None) True) (c_str ''ls'') 0
                         (Some long_text) None))
   \<and> status (execute_cmd (sample_env (0, Some long_text, None) True) (c_str ''ls'') [None]
               (sample_world sample_images))
      = replicate 56 (CHR ''a'') @ ''...''"
proof -
  let ?E = "sample_env (0, Some long_text, None) True"
  have h1: "shellcmd_expr ?E (c_str ''ls'') [None] = Some (c_str ''ls'')"
    by code_simp
  have h2: "shellcmd_exec ?E (c_str ''ls'') = (0, Some long_text, None)"
    by code_simp
  have m: "cstr (build_msg ?E (c_str ''ls'') 0 (Some long_text) None) = long_text"
    by code_simp
  have l: "length long_text = 61" "take 56 long_text = replicate 56 (CHR ''a'')"
    by (simp_all add: long_text_def)
  show ?thesis
    using execute_cmd_status_trimmed [OF h1 h2, of "sample_world sample_images"] h1 h2
    by (simp add: m l)
qed

text \<open>A text of 61 characters is not published as 60 characters, nor as its first 57
  characters and the dots.\<close>

theorem execute_cmd_status_not_60:
  "60 < length (cstr (build_msg (sample_env (0, Some long_text, None) True) (c_str ''ls'') 0
                        (Some long_text) None))
   \<and> length (status (execute_cmd (sample_env (0, Some long_text, None) True) (c_str ''ls'')
                         [None] (sample_world sample_images))) \<noteq> 60
   \<and> status (execute_cmd (sample_env (0, Some long_text, None) True) (c_str ''ls'') [None]
                (sample_world sample_images))
      \<noteq> take 57 (cstr (build_msg (sample_env (0, Some long_text, None) True) (c_str ''ls'') 0
                          (Some long_text) None)) @ ''...''"
  by code_simp

section \<open>The paths of the marked images\<close>

text \<open>C2 (as amended). \<^verbatim>\<open>collect_paths\<close> returns \<^verbatim>\<open>NULL\<close> if and only if no image
  is marked or the allocation of the path array fails; otherwise it returns the
  \<^verbatim>\<open>NULL\<close>-terminated array of the sources of exactly the marked images, in the order of
  the forward iteration of the image list. The image list is left as it was.\<close>

theorem collect_paths_marked_in_order:
  "collect_paths env w =
     (if filter marked (images w) = []
         \<or> \<not> malloc_ok env ((length (filter marked (images w)) + 1) * sizeof_ptr)
      then None
      else Some (map (\<lambda>img. Some (source img)) (filter marked (images w)) @ [None]), w)
   \<and> (\<forall>paths. fst (collect_paths env w) = Some paths
         \<longrightarrow> path_set paths = map source (filter marked (images w)))"
proof -
  have "path_set paths = map source (filter marked (images w))"
    if "fst (collect_paths env w) = Some paths" for paths
    using that path_set_terminated [of "filter marked (images w)"]
    by (auto simp: collect_paths_eq split: if_splits)
  then show ?thesis
    by (simp add: collect_paths_eq)
qed

theorem collect_paths_marked_in_order_witness:
  "collect_paths (sample_env (0, None, None) True) (sample_world sample_images)
     = (Some [Some (c_str ''/tmp/a.png''), Some (c_str ''/tmp/c.png''), None],
        sample_world sample_images)
   \<and> path_set [Some (c_str ''/tmp/a.png''), Some (c_str ''/tmp/c.png''), None]
       = [c_str ''/tmp/a.png'', c_str ''/tmp/c.png'']
   \<and> collect_paths (sample_env (0, None, None) False) (sample_world sample_images)
       = (None, sample_world sample_images)
   \<and> collect_paths (sample_env (0, None, None) True) (sample_world unmarked_images)
       = (None, sample_world unmarked_images)"
proof -
  have f: "filter marked sample_images =
      [\<lparr>source = c_str ''/tmp/a.png'', marked = True\<rparr>,
       \<lparr>source = c_str ''/tmp/c.png'', marked = True\<rparr>]"
    "filter marked unmarked_images = []"
    by (simp_all add: sample_images_def unmarked_images_def)
  have i: "images (sample_world imgs) = imgs" for imgs
    by (simp add: sample_world_def)
  have m: "malloc_ok (sample_env (0, None, None) b) n = b" for b n
    by (simp add: sample_env_def)
  show ?thesis
    using collect_paths_marked_in_order
            [of "sample_env (0, None, None) True" "sample_world sample_images"]
          collect_paths_marked_in_order
            [of "sample_env (0, None, None) False" "sample_world sample_images"]
          collect_paths_marked_in_order
            [of "sample_env (0, None, None) True" "sample_world unmarked_images"]
    by (simp add: f i m)
qed

text \<open>With a failing allocator the result is absent although two images are marked.\<close>

theorem collect_paths_absent_with_marked:
  "fst (collect_paths (sample_env (0, None, None) False) (sample_world sample_images)) = None
   \<and> filter marked (images (sample_world sample_images)) \<noteq> []"
  by code_simp

text \<open>C3. An execute-on-marked action dispatched when no image is marked changes nothing:
  no command string is built, no process is run, the status line stays as it was. Whenever
  \<^verbatim>\<open>mode_handle\<close> does pass the collected paths to \<^verbatim>\<open>execute_cmd\<close>, they are not
  empty.\<close>

theorem exec_marked_without_marks:
  assumes "type act = action_exec_marked"
  shows "((\<forall>img \<in> set (images w). \<not> marked img) \<longrightarrow> mode_handle env mode act w = w)
       \<and> (\<forall>paths w1. collect_paths env w = (Some paths, w1)
             \<longrightarrow> path_set paths \<noteq> []
                 \<and> mode_handle env mode act w = execute_cmd env (params act) paths w)"
proof -
  have "mode_handle env mode act w = w" if "\<forall>img \<in> set (images w). \<not> marked img"
  proof -
    from that have "filter marked (images w) = []"
      by (simp add: filter_empty_conv)
    then show ?thesis
      using assms by (simp add: mode_handle_def collect_paths_eq)
  qed
  moreover have "path_set paths \<noteq> [] \<and> mode_handle env mode act w = execute_cmd env (params act) paths w"
    if "collect_paths env w = (Some paths, w1)" for paths w1
  proof -
    from that have ne: "filter marked (images w) \<noteq> []"
      and p: "paths = map (\<lambda>img. Some (source img)) (filter marked (images w)) @ [None]"
      and w1: "w1 = w"
      by (auto simp: collect_paths_eq split: if_splits)
    from ne p have "path_set paths \<noteq> []"
      by (simp add: path_set_terminated)
    moreover have "mode_handle env mode act w = execute_cmd env (params act) paths w"
      using assms that w1 by (simp add: mode_handle_def)
    ultimately show ?thesis ..
  qed
  ultimately show ?thesis
    by blast
qed

theorem exec_marked_without_marks_witness:
  "type exec_marked_action = action_exec_marked
   \<and> filter marked (images (sample_world unmarked_images)) = []
   \<and> mode_handle (sample_env (0, None, None) True) sample_mode exec_marked_action
        (sample_world unmarked_images) = sample_world unmarked_images
   \<and> collect_paths (sample_env (0, None, None) True) (sample_world sample_images)
       = (Some [Some (c_str ''/tmp/a.png''), Some (c_str ''/tmp/c.png''), None],
          sample_world sample_images)
   \<and> path_set [Some (c_str ''/tmp/a.png''), Some (c_str ''/tmp/c.png''), None] \<noteq> []"
proof -
  have t: "type exec_marked_action = action_exec_marked"
    by (simp add: exec_marked_action_def)
  have u: "\<forall>img \<in> set (images (sample_world unmarked_images)). \<not> marked img"
    by (simp add: sample_world_def unmarked_images_def)
  have c: "collect_paths (sample_env (0, None, None) True) (sample_world sample_images)
       = (Some [Some (c_str ''/tmp/a.png''), Some (c_str ''/tmp/c.png''), None],
          sample_world sample_images)"
    by code_simp
  show ?thesis
    using exec_marked_without_marks [OF t, of "sample_world unmarked_images"
            "sample_env (0, None, None) True" sample_mode]
          exec_marked_without_marks [OF t, of "sample_world sample_images"
            "sample_env (0, None, None) True" sample_mode]
          t u c
    by (simp add: filter_empty_conv)
qed

text \<open>C10. If the allocation of the path array fails while one or more images are marked,
  \<^verbatim>\<open>collect_paths\<close> returns \<^verbatim>\<open>NULL\<close>, as it does when no image is marked, and the
  execute-on-marked dispatch changes nothing: no command is run, the status line is
  untouched and no error is reported.\<close>

theorem collect_paths_alloc_failure:
  assumes "type act = action_exec_marked"
    and "\<exists>img \<in> set (images w). marked img"
    and "\<not> malloc_ok env ((length (filter marked (images w)) + 1) * sizeof_ptr)"
  shows "collect_paths env w = (None, w)
       \<and> fst (collect_paths env w) = fst (collect_paths env (w\<lparr>images := []\<rparr>))
       \<and> mode_handle env mode act w = w"
  using assms by (simp add: collect_paths_eq mode_handle_def)

theorem collect_paths_alloc_failure_witness:
  "type exec_marked_action = action_exec_marked
   \<and> (\<exists>img \<in> set (images (sample_world sample_images)). marked img)
   \<and> \<not> malloc_ok (sample_env (0, None, None) False)
          ((length (filter marked (images (sample_world sample_images))) + 1) * sizeof_ptr)
   \<and> collect_paths (sample_env (0, None, None) False) (sample_world sample_images)
       = (None, sample_world sample_images)
   \<and> mode_handle (sample_env (0, None, None) False) sample_mode exec_marked_action
        (sample_world sample_images) = sample_world sample_images"
proof -
  have t: "type exec_marked_action = action_exec_marked"
    by (simp add: exec_marked_action_def)
  have e: "\<exists>img \<in> set (images (sample_world sample_images)). marked img"
    by (simp add: sample_world_def sample_images_def)
  have m: "\<not> malloc_ok (sample_env (0, None, None) False)
          ((length (filter marked (images (sample_world sample_images))) + 1) * sizeof_ptr)"
    by (simp add: sample_env_def)
  show ?thesis
    using collect_paths_alloc_failure [OF t e m, of sample_mode] t e m
    by simp
qed

section \<open>The outcome of a command run\<close>

text \<open>C4 (as amended). When the child process exits with code 0, the status text before
  trimming is, if a standard-output array was captured, its bytes up to their first zero
  byte (the whole captured text when it holds no zero byte), and otherwise \<open>Success: \<close>
  followed by the command string; that text, trimmed, is the status line. The code tests
  the \<^verbatim>\<open>out\<close> pointer and reads the array as a C string.\<close>

theorem success_status_message:
  assumes "shellcmd_expr env expr paths = Some cmd"
    and "shellcmd_exec env cmd = (0, out, err)"
  shows "cstr (build_msg env cmd 0 out err) =
           (case out of Some a \<Rightarrow> cstr a | None \<Rightarrow> ''Success: '' @ cstr cmd)
       \<and> (\<forall>t. out = Some t \<and> NUL \<notin> set t \<longrightarrow>
             cstr (build_msg env cmd 0 out err) = t)
       \<and> status (execute_cmd env expr paths w) = cstr (trim_status (build_msg env cmd 0 out err))"
proof -
  have m: "cstr (build_msg env cmd 0 out err) =
           (case out of Some a \<Rightarrow> cstr a | None \<Rightarrow> ''Success: '' @ cstr cmd)"
    by (simp add: cstr_build_msg)
  have "cstr (build_msg env cmd 0 out err) = t" if "out = Some t" "NUL \<notin> set t" for t
    using that by (simp add: cstr_build_msg cstr_NUL_free)
  moreover have "status (execute_cmd env expr paths w)
      = cstr (trim_status (build_msg env cmd 0 out err))"
    using assms by (simp add: execute_cmd_Some)
  ultimately show ?thesis
    using m by blast
qed

theorem success_status_message_witness:
  "shellcmd_expr (sample_env (0, Some ''done'', None) True) (c_str ''ls'') [None] = Some (c_str ''ls'')
   \<and> shellcmd_exec (sample_env (0, Some ''done'', None) True) (c_str ''ls'') = (0, Some ''done'', None)
   \<and> NUL \<notin> set ''done''
   \<and> cstr (build_msg (sample_env (0, Some ''done'', None) True) (c_str ''ls'') 0 (Some ''done'') None)
       = ''done''
   \<and> shellcmd_expr (sample_env (0, None, None) True) (c_str ''ls'') [None] = Some (c_str ''ls'')
   \<and> shellcmd_exec (sample_env (0, None, None) True) (c_str ''ls'') = (0, None, None)
   \<and> cstr (build_msg (sample_env (0, None, None) True) (c_str ''ls'') 0 None None)
       = ''Success: ls''
   \<and> shellcmd_exec (sample_env (0, Some zero_first_output, None) True) (c_str ''ls'')
       = (0, Some zero_first_output, None)
   \<and> cstr (build_msg (sample_env (0, Some zero_first_output, None) True) (c_str ''ls'') 0
             (Some zero_first_output) None) = []"
proof -
  let ?E = "sample_env (0, Some ''done'', None) True"
  let ?F = "sample_env (0, None, None) True"
  let ?G = "sample_env (0, Some zero_first_output, None) True"
  have e1: "shellcmd_expr ?E (c_str ''ls'') [None] = Some (c_str ''ls'')"
    and e2: "shellcmd_exec ?E (c_str ''ls'') = (0, Some ''done'', None)"
    and e3: "NUL \<notin> set ''done''"
    by code_simp+
  have f1: "shellcmd_expr ?F (c_str ''ls'') [None] = Some (c_str ''ls'')"
    and f2: "shellcmd_exec ?F (c_str ''ls'') = (0, None, None)"
    by code_simp+
  have g1: "shellcmd_expr ?G (c_str ''ls'') [None] = Some (c_str ''ls'')"
    and g2: "shellcmd_exec ?G (c_str ''ls'') = (0, Some zero_first_output, None)"
    by code_simp+
  have c: "cstr (c_str ''ls'') = ''ls''" "cstr zero_first_output = []"
    by code_simp+
  from success_status_message [OF e1 e2, of "sample_world sample_images"] e3
  have d: "cstr (build_msg ?E (c_str ''ls'') 0 (Some ''done'') None) = ''done''"
    by blast
  show ?thesis
    using success_status_message [OF f1 f2, of "sample_world sample_images"]
          success_status_message [OF g1 g2, of "sample_world sample_images"]
          d e1 e2 e3 f1 f2 g2
    by (simp add: c)
qed

text \<open>The captured bytes zero, \<open>x\<close> give an empty status text: neither the captured
  bytes nor \<open>Success: \<close> and the command.\<close>

theorem success_status_zero_byte:
  "shellcmd_exec (sample_env (0, Some zero_first_output, None) True) (c_str ''ls'')
     = (0, Some zero_first_output, None)
   \<and> zero_first_output \<noteq> []
   \<and> cstr (build_msg (sample_env (0, Some zero_first_output, None) True) (c_str ''ls'') 0
             (Some zero_first_output) None) \<noteq> zero_first_output
   \<and> cstr (build_msg (sample_env (0, Some zero_first_output, None) True) (c_str ''ls'') 0
             (Some zero_first_output) None) \<noteq> ''Success: '' @ cstr (c_str ''ls'')
   \<and> status (execute_cmd (sample_env (0, Some zero_first_output, None) True) (c_str ''ls'')
               [None] (sample_world sample_images)) = []"
  by code_simp

text \<open>C5 (as amended). When the return code is not 0, the status text before trimming is
  \<open>Child process timed out: \<close> followed by the command string if the code is
  \<^verbatim>\<open>SHELLCMD_TIMEOUT\<close>, and otherwise \<open>Error c: \<close> followed by the bytes up to the
  first zero byte of the captured standard-error array if there is one, else of the
  captured standard-output array if there is one, else by \<^verbatim>\<open>strerror(c)\<close>; a captured
  text without a zero byte is appended whole. The code \<open>c\<close> is written in decimal: a
  minus sign if it is negative, then digits that denote its magnitude and do not start
  with \<open>0\<close>.\<close>

theorem failure_status_message:
  assumes "shellcmd_expr env expr paths = Some cmd"
    and "shellcmd_exec env cmd = (rc, out, err)"
    and "rc \<noteq> 0"
  shows "cstr (build_msg env cmd rc out err) =
           (if rc = SHELLCMD_TIMEOUT env then ''Child process timed out: '' @ cstr cmd
            else ''Error '' @ show_int (sint rc) @ '': '' @
                 (case err of
                    Some e \<Rightarrow> cstr e
                  | None \<Rightarrow>
                     (case out of Some a \<Rightarrow> cstr a | None \<Rightarrow> cstr (strerror env rc))))
       \<and> (\<forall>t. (err = Some t \<or> out = Some t) \<and> NUL \<notin> set t \<longrightarrow> cstr t = t)
       \<and> int_val (show_int (sint rc)) = sint rc
       \<and> show_int (sint rc) = (if sint rc < 0 then ''-'' else []) @ digits (nat \<bar>sint rc\<bar>)
       \<and> set (digits (nat \<bar>sint rc\<bar>)) \<subseteq> set ''0123456789''
       \<and> hd (digits (nat \<bar>sint rc\<bar>)) \<noteq> CHR ''0''
       \<and> status (execute_cmd env expr paths w) = cstr (trim_status (build_msg env cmd rc out err))"
proof -
  have msg: "cstr (build_msg env cmd rc out err) =
           (if rc = SHELLCMD_TIMEOUT env then ''Child process timed out: '' @ cstr cmd
            else ''Error '' @ show_int (sint rc) @ '': '' @
                 (case err of
                    Some e \<Rightarrow> cstr e
                  | None \<Rightarrow>
                     (case out of Some a \<Rightarrow> cstr a | None \<Rightarrow> cstr (strerror env rc))))"
    using assms(3) by (simp add: cstr_build_msg)
  have free: "cstr t = t" if "NUL \<notin> set t" for t
    using that by (rule cstr_NUL_free)
  have "sint rc \<noteq> 0"
    using assms(3) by (simp add: signed_eq_0_iff)
  then have pos: "0 < nat \<bar>sint rc\<bar>"
    by simp
  have shape: "show_int (sint rc) = (if sint rc < 0 then ''-'' else []) @ digits (nat \<bar>sint rc\<bar>)"
    by (simp add: show_int_def abs_if)
  have st: "status (execute_cmd env expr paths w) = cstr (trim_status (build_msg env cmd rc out err))"
    using assms(1,2) by (simp add: execute_cmd_Some)
  show ?thesis
    using msg free int_val_show_int [of "sint rc"] shape digits_set [of "nat \<bar>sint rc\<bar>"]
      hd_digits [OF pos] st
    by blast
qed

theorem failure_status_message_witness:
  "shellcmd_expr (sample_env failed_run True) (c_str ''ls'') [None] = Some (c_str ''ls'')
   \<and> shellcmd_exec (sample_env failed_run True) (c_str ''ls'') = (1, Some ''partial'', Some ''boom'')
   \<and> (1 :: 32 word) \<noteq> 0
   \<and> cstr (build_msg (sample_env failed_run True) (c_str ''ls'') 1 (Some ''partial'') (Some ''boom''))
       = ''Error 1: boom''
   \<and> shellcmd_exec (sample_env silent_failure True) (c_str ''ls'') = (1, None, None)
   \<and> cstr (build_msg (sample_env silent_failure True) (c_str ''ls'') 1 None None)
       = ''Error 1: Operation not permitted''
   \<and> shellcmd_exec (sample_env timed_out_run True) (c_str ''ls'') = (256, None, None)
   \<and> (256 :: 32 word) \<noteq> 0
   \<and> cstr (build_msg (sample_env timed_out_run True) (c_str ''ls'') 256 None None)
       = ''Child process timed out: ls''"
proof -
  have e1: "shellcmd_expr (sample_env outcome True) (c_str ''ls'') [None] = Some (c_str ''ls'')"
    for outcome
    by (simp add: sample_env_def cstr_def c_str_def NUL_def)
  have a2: "shellcmd_exec (sample_env failed_run True) (c_str ''ls'')
      = (1, Some ''partial'', Some ''boom'')"
    and b2: "shellcmd_exec (sample_env silent_failure True) (c_str ''ls'') = (1, None, None)"
    and c2: "shellcmd_exec (sample_env timed_out_run True) (c_str ''ls'') = (256, None, None)"
    by (simp_all add: sample_env_def failed_run_def silent_failure_def timed_out_run_def)
  have n1: "(1 :: 32 word) \<noteq> 0" and n256: "(256 :: 32 word) \<noteq> 0"
    by simp_all
  have v: "SHELLCMD_TIMEOUT (sample_env outcome True) = 256"
    "cstr (strerror (sample_env outcome True) rc) = ''Operation not permitted''"
    "cstr (c_str ''ls'') = ''ls''"
    for outcome rc
    by (simp_all add: sample_env_def cstr_def c_str_def NUL_def)
  have d: "show_int 1 = ''1''"
    by code_simp
  have c: "cstr ''boom'' = ''boom''"
    by code_simp
  show ?thesis
    using failure_status_message [OF e1 a2 n1, of "sample_world sample_images"]
          failure_status_message [OF e1 b2 n1, of "sample_world sample_images"]
          failure_status_message [OF e1 c2 n256, of "sample_world sample_images"]
          e1 a2 b2 c2
    by (simp add: v d c)
qed

text \<open>With return code 1, standard output \<open>partial\<close> and the standard-error bytes zero,
  \<open>x\<close>, the status text is \<open>Error 1: \<close> alone: neither the standard-error bytes nor the
  standard-output text follow it.\<close>

theorem failure_status_zero_byte:
  "shellcmd_exec (sample_env zero_stderr_run True) (c_str ''ls'')
     = (1, Some ''partial'', Some zero_first_output)
   \<and> (1 :: 32 word) \<noteq> 0
   \<and> (1 :: 32 word) \<noteq> SHELLCMD_TIMEOUT (sample_env zero_stderr_run True)
   \<and> cstr (build_msg (sample_env zero_stderr_run True) (c_str ''ls'') 1 (Some ''partial'')
             (Some zero_first_output)) = ''Error 1: ''
   \<and> cstr (build_msg (sample_env zero_stderr_run True) (c_str ''ls'') 1 (Some ''partial'')
             (Some zero_first_output)) \<noteq> ''Error 1: '' @ zero_first_output
   \<and> cstr (build_msg (sample_env zero_stderr_run True) (c_str ''ls'') 1 (Some ''partial'')
             (Some zero_first_output)) \<noteq> ''Error 1: '' @ ''partial''
   \<and> status (execute_cmd (sample_env zero_stderr_run True) (c_str ''ls'') [None]
               (sample_world sample_images)) = ''Error 1: ''"
  by code_simp

text \<open>C6. When the templating primitive yields no command string, \<^verbatim>\<open>execute_cmd\<close>
  publishes \<open>Error: no command to execute\<close>, requests a redraw and returns: nothing is
  handed to \<^verbatim>\<open>shellcmd_exec\<close> and nothing is written to the output streams.\<close>

theorem no_command_no_process:
  assumes "shellcmd_expr env expr paths = None"
  shows "execute_cmd env expr paths w
           = w\<lparr>status := ''Error: no command to execute'', redraws := redraws w + 1\<rparr>
       \<and> spawned (execute_cmd env expr paths w) = spawned w
       \<and> out_stream (execute_cmd env expr paths w) = out_stream w
       \<and> err_stream (execute_cmd env expr paths w) = err_stream w"
  using assms by (simp add: execute_cmd_None)

theorem no_command_no_process_witness:
  "shellcmd_expr (sample_env (0, Some ''done'', None) True) (c_str []) [None] = None
   \<and> status (execute_cmd (sample_env (0, Some ''done'', None) True) (c_str []) [None]
               (sample_world sample_images)) = ''Error: no command to execute''
   \<and> redraws (execute_cmd (sample_env (0, Some ''done'', None) True) (c_str []) [None]
               (sample_world sample_images)) = 1
   \<and> spawned (execute_cmd (sample_env (0, Some ''done'', None) True) (c_str []) [None]
               (sample_world sample_images)) = []"
proof -
  have h: "shellcmd_expr (sample_env (0, Some ''done'', None) True) (c_str []) [None] = None"
    by (simp add: sample_env_def cstr_def c_str_def)
  show ?thesis
    using no_command_no_process [OF h, of "sample_world sample_images"] h
    by (simp add: sample_world_def)
qed




section \<open>The dispatcher\<close>

text \<open>C7 (as amended). The trimming to \<^const>\<open>max_status\<close> is applied only to the text that
  \<^verbatim>\<open>execute_cmd\<close> builds after a command has run. The set-status action publishes its
  parameter as it is, and an action that the mode does not handle publishes
  \<open>Unhandled action: \<close> followed by the name of its type, both at full length.\<close>

theorem status_actions_published_whole:
  "(type act = action_status \<longrightarrow>
      status (mode_handle env mode act w) = cstr (params act))
   \<and> (type act = action_other n \<and> \<not> handle_action mode act \<longrightarrow>
        status (mode_handle env mode act w)
          = ''Unhandled action: '' @ cstr (action_typename env act))
   \<and> (shellcmd_expr env expr paths = Some cmd \<and> shellcmd_exec env cmd = (rc, out, err) \<longrightarrow>
        status (execute_cmd env expr paths w)
          = cstr (trim_status (build_msg env cmd rc out err)))"
  by (simp add: mode_handle_def info_update_def app_redraw_def execute_cmd_Some)

theorem status_actions_published_whole_witness:
  "type long_status_action = action_status
   \<and> status (mode_handle (sample_env (0, None, None) True) sample_mode long_status_action
               (sample_world sample_images)) = long_text
   \<and> length long_text = 61
   \<and> type zoom_action = action_other 12 \<and> \<not> handle_action sample_mode zoom_action
   \<and> status (mode_handle (sample_env (0, None, None) True) sample_mode zoom_action
               (sample_world sample_images)) = ''Unhandled action: zoom''
   \<and> shellcmd_expr (sample_env (0, Some long_text, None) True) (c_str ''ls'') [None]
       = Some (c_str ''ls'')
   \<and> shellcmd_exec (sample_env (0, Some long_text, None) True) (c_str ''ls'')
       = (0, Some long_text, None)
   \<and> status (execute_cmd (sample_env (0, Some long_text, None) True) (c_str ''ls'') [None]
               (sample_world sample_images))
       = replicate 56 (CHR ''a'') @ ''...''"
proof -
  let ?E = "sample_env (0, None, None) True"
  let ?F = "sample_env (0, Some long_text, None) True"
  have a: "type long_status_action = action_status"
    "cstr (params long_status_action) = long_text" "length long_text = 61"
    by code_simp+
  have z: "type zoom_action = action_other 12" "\<not> handle_action sample_mode zoom_action"
    "cstr (action_typename ?E zoom_action) = ''zoom''"
    by code_simp+
  have x: "shellcmd_expr ?F (c_str ''ls'') [None] = Some (c_str ''ls'')"
    "shellcmd_exec ?F (c_str ''ls'') = (0, Some long_text, None)"
    "cstr (trim_status (build_msg ?F (c_str ''ls'') 0 (Some long_text) None))
       = replicate 56 (CHR ''a'') @ ''...''"
    by code_simp+
  show ?thesis
    using status_actions_published_whole [of long_status_action ?E sample_mode
            "sample_world sample_images" 12 "c_str ''ls''" "[None]" "c_str ''ls''" 0 None None]
          status_actions_published_whole [of zoom_action ?E sample_mode
            "sample_world sample_images" 12 "c_str ''ls''" "[None]" "c_str ''ls''" 0 None None]
          status_actions_published_whole [of zoom_action ?F sample_mode
            "sample_world sample_images" 12 "c_str ''ls''" "[None]" "c_str ''ls''" 0
            "Some long_text" None]
          a z x
    by simp
qed

text \<open>A set-status parameter of 61 characters is published with all its 61
  characters.\<close>

theorem set_status_not_trimmed:
  "status (mode_handle (sample_env (0, None, None) True) sample_mode long_status_action
             (sample_world sample_images)) = cstr (params long_status_action)
   \<and> \<not> length (status (mode_handle (sample_env (0, None, None) True) sample_mode
                           long_status_action (sample_world sample_images))) \<le> 60"
  by code_simp

text \<open>C9. One call of \<^verbatim>\<open>mode_handle\<close> requests no redraw or exactly one, whatever the
  action; \<^verbatim>\<open>execute_cmd\<close> requests exactly one on each of its two paths.\<close>

theorem mode_handle_one_redraw:
  "redraws (mode_handle env mode act w) \<in> {redraws w, redraws w + 1}
   \<and> redraws (execute_cmd env expr paths w) = redraws w + 1"
proof -
  have "redraws (mode_handle env mode act w) \<in> {redraws w, redraws w + 1}"
  proof (cases "type act")
    case action_exec_marked
    then show ?thesis
      by (simp add: mode_handle_def collect_paths_eq redraws_execute_cmd)
  next
    case action_mark
    then show ?thesis
      by (simp add: mode_handle_def image_toggle_marked_def Let_def info_update_mark_def
          app_redraw_def)
  qed (simp_all add: mode_handle_def redraws_execute_cmd app_redraw_def info_switch_def
      info_update_def ui_toggle_fullscreen_def app_switch_mode_def help_hide_def help_show_def
      app_exit_def)
  then show ?thesis
    by (simp add: redraws_execute_cmd)
qed

theorem mode_handle_one_redraw_witness:
  "redraws (mode_handle (sample_env (0, None, None) True) sample_mode help_action
              (sample_world sample_images)) = 1
   \<and> redraws (sample_world sample_images) = 0"
proof -
  have "redraws (mode_handle (sample_env (0, None, None) True) sample_mode help_action
              (sample_world sample_images)) \<noteq> redraws (sample_world sample_images)"
    by code_simp
  moreover have "redraws (sample_world sample_images) = 0"
    by (simp add: sample_world_def)
  ultimately show ?thesis
    using mode_handle_one_redraw [of "sample_env (0, None, None) True" sample_mode help_action
        "sample_world sample_images"]
    by simp
qed

end
